theory Spec2Isabelle
  imports Main
begin

section \<open>Values, exceptions and observable events\<close>

text \<open>
  The deployment script is dynamically typed: the fields of a \<open>DeployConfig\<close> hold whatever
  the YAML file gave, since a dataclass does not enforce its annotations. A field is
  therefore a scalar Python value. Floats, lists and nested mappings are left out.
\<close>

datatype pyval = PNone | PBool bool | PInt int | PStr string

text \<open>\<open>str(n)\<close> for a non-negative integer: its decimal digits.\<close>

fun str_nat :: "nat \<Rightarrow> string" where
  "str_nat n =
     (if n < 10 then [''0123456789'' ! n]
      else str_nat (n div 10) @ [''0123456789'' ! (n mod 10)])"

declare str_nat.simps [simp del]

definition str_int :: "int \<Rightarrow> string" where
  "str_int i = (if i < 0 then ''-'' @ str_nat (nat (- i)) else str_nat (nat i))"

text \<open>\<open>str(v)\<close>, which is what an f-string applies to an interpolated value.\<close>

fun py_str :: "pyval \<Rightarrow> string" where
  "py_str PNone = ''None''"
| "py_str (PBool b) = (if b then ''True'' else ''False'')"
| "py_str (PInt i) = str_int i"
| "py_str (PStr s) = s"

text \<open>The truth value that \<open>if v:\<close> tests.\<close>

fun truthy :: "pyval \<Rightarrow> bool" where
  "truthy PNone = False"
| "truthy (PBool b) = b"
| "truthy (PInt i) = (i \<noteq> 0)"
| "truthy (PStr s) = (s \<noteq> [])"

fun type_name :: "pyval \<Rightarrow> string" where
  "type_name PNone = ''NoneType''"
| "type_name (PBool b) = ''bool''"
| "type_name (PInt i) = ''int''"
| "type_name (PStr s) = ''str''"

text \<open>
  The exceptions the script and its collaborators raise. All of them are subclasses of
  \<open>Exception\<close>, the class the handlers of \<open>deploy\<close>, \<open>_verify_health\<close> and \<open>main\<close> catch;
  each carries its message. What lies outside \<open>Exception\<close> (a keyboard interrupt, the
  cancellation of the task) does not come from a collaborator and is not modelled.
\<close>

datatype exn =
    FileNotFoundError string
  | OSError string
  | YAMLError string
  | TypeError string
  | ClientError string
  | TimeoutError string

fun str_exn :: "exn \<Rightarrow> string" where
  "str_exn (FileNotFoundError m) = m"
| "str_exn (OSError m) = m"
| "str_exn (YAMLError m) = m"
| "str_exn (TypeError m) = m"
| "str_exn (ClientError m) = m"
| "str_exn (TimeoutError m) = m"

datatype level = INFO | WARNING | ERROR

text \<open>
  What a run does to the outside, in order: a log record, a call of \<open>subprocess.run\<close> with
  its argument list, a \<open>session.get\<close> with its URL and timeout, an \<open>asyncio.sleep\<close> with its
  number of seconds, and a \<open>print\<close>.
\<close>

datatype event =
    Log level string
  | Run "pyval list"
  | Get string nat
  | Sleep nat
  | Print string

record CompletedProcess =
  returncode :: int
  stdout :: string
  stderr :: string

text \<open>
  A configuration file as the script meets it: \<open>open\<close> fails, \<open>yaml.safe_load\<close> fails, or
  the file parses to a document. A document is a mapping, given by its items (the keys of
  a mapping are distinct), or a scalar (an empty file parses to \<open>None\<close>).
\<close>

datatype document = Mapping "(string \<times> pyval) list" | Scalar pyval

datatype yaml_file = Unreadable string | Malformed string | Parsed document

text \<open>
  The collaborators: what \<open>subprocess.run\<close> does on each argument list (it returns a
  completed process or raises), what the \<open>n\<close>-th \<open>session.get\<close> of a health check does on a
  URL (it yields a response status or raises), and the files that exist.
\<close>

record world =
  subprocess_result :: "pyval list \<Rightarrow> exn + CompletedProcess"
  get_result :: "nat \<Rightarrow> string \<Rightarrow> exn + int"
  files :: "string \<Rightarrow> yaml_file option"

section \<open>The configuration\<close>

record DeployConfig =
  service_name :: pyval
  image_tag :: pyval
  namespace :: pyval
  replicas :: pyval
  health_check_path :: pyval
  timeout_seconds :: pyval
  rollback_on_failure :: pyval

definition field_names :: "string list" where
  "field_names = [''service_name'', ''image_tag'', ''namespace'', ''replicas'',
     ''health_check_path'', ''timeout_seconds'', ''rollback_on_failure'']"

definition required_names :: "string list" where
  "required_names = [''service_name'', ''image_tag'']"

definition quoted :: "string \<Rightarrow> string" where
  "quoted s = [CHR 0x27] @ s @ [CHR 0x27]"

definition missing_message :: "string list \<Rightarrow> string" where
  "missing_message ms =
     (case ms of
        [m] \<Rightarrow> ''DeployConfig.__init__() missing 1 required positional argument: '' @ quoted m
      | _ \<Rightarrow> ''DeployConfig.__init__() missing 2 required positional arguments: ''
             @ quoted ''service_name'' @ '' and '' @ quoted ''image_tag'')"

definition get_or :: "(string \<times> pyval) list \<Rightarrow> string \<Rightarrow> pyval \<Rightarrow> pyval" where
  "get_or kwargs k d = (case map_of kwargs k of None \<Rightarrow> d | Some v \<Rightarrow> v)"

text \<open>
  \<open>DeployConfig(**data)\<close> on a mapping: the generated \<open>__init__\<close> rejects a keyword that is
  not a field, then a missing field that has no default, and stores every value as it is.
\<close>

definition DeployConfig_init :: "(string \<times> pyval) list \<Rightarrow> exn + DeployConfig" where
  "DeployConfig_init kwargs =
     (case find (\<lambda>k. k \<notin> set field_names) (map fst kwargs) of
        Some k \<Rightarrow>
          Inl (TypeError (''DeployConfig.__init__() got an unexpected keyword argument ''
                 @ quoted k))
      | None \<Rightarrow>
          (case filter (\<lambda>k. map_of kwargs k = None) required_names of
             [] \<Rightarrow>
               Inr \<lparr> service_name = get_or kwargs ''service_name'' PNone,
                     image_tag = get_or kwargs ''image_tag'' PNone,
                     namespace = get_or kwargs ''namespace'' (PStr ''default''),
                     replicas = get_or kwargs ''replicas'' (PInt 3),
                     health_check_path = get_or kwargs ''health_check_path'' (PStr ''/health''),
                     timeout_seconds = get_or kwargs ''timeout_seconds'' (PInt 300),
                     rollback_on_failure = get_or kwargs ''rollback_on_failure'' (PBool True) \<rparr>
           | ms \<Rightarrow> Inl (TypeError (missing_message ms))))"

definition load_config :: "world \<Rightarrow> string \<Rightarrow> exn + DeployConfig" where
  "load_config w config_path =
     (case files w config_path of
        None \<Rightarrow> Inl (FileNotFoundError (''Config file not found: '' @ config_path))
      | Some (Unreadable m) \<Rightarrow> Inl (OSError m)
      | Some (Malformed m) \<Rightarrow> Inl (YAMLError m)
      | Some (Parsed (Scalar v)) \<Rightarrow>
          Inl (TypeError (''DeployConfig() argument after ** must be a mapping, not ''
                 @ type_name v))
      | Some (Parsed (Mapping data)) \<Rightarrow> DeployConfig_init data)"

section \<open>The deployment manager\<close>

definition kubectl_cmd :: "DeployConfig \<Rightarrow> pyval list" where
  "kubectl_cmd config = [PStr ''kubectl'', PStr ''-n'', namespace config]"

text \<open>One call of \<open>subprocess.run\<close>: the call is observed, and it returns or raises.\<close>

definition subprocess_run :: "world \<Rightarrow> pyval list \<Rightarrow> (exn + CompletedProcess) \<times> event list" where
  "subprocess_run w cmd = (subprocess_result w cmd, [Run cmd])"

definition update_cmd :: "DeployConfig \<Rightarrow> pyval list" where
  "update_cmd config =
     kubectl_cmd config @
       [PStr ''set'', PStr ''image'',
        PStr (''deployment/'' @ py_str (service_name config)),
        PStr (py_str (service_name config) @ ''='' @ py_str (image_tag config))]"

definition update_deployment :: "DeployConfig \<Rightarrow> world \<Rightarrow> (exn + bool) \<times> event list" where
  "update_deployment config w =
     (case subprocess_run w (update_cmd config) of
        (Inl e, t) \<Rightarrow> (Inl e, t)
      | (Inr result, t) \<Rightarrow>
          if returncode result \<noteq> 0
          then (Inr False, t @ [Log ERROR (''Failed to update deployment: '' @ stderr result)])
          else (Inr True, t @ [Log INFO ''Deployment updated successfully'']))"

definition rollout_cmd :: "DeployConfig \<Rightarrow> pyval list" where
  "rollout_cmd config =
     kubectl_cmd config @
       [PStr ''rollout'', PStr ''status'',
        PStr (''deployment/'' @ py_str (service_name config)),
        PStr (''--timeout='' @ py_str (timeout_seconds config) @ ''s'')]"

definition wait_for_rollout :: "DeployConfig \<Rightarrow> world \<Rightarrow> (exn + bool) \<times> event list" where
  "wait_for_rollout config w =
     (case subprocess_run w (rollout_cmd config) of
        (Inl e, t) \<Rightarrow> (Inl e, t)
      | (Inr result, t) \<Rightarrow> (Inr (returncode result = 0), t))"

definition health_url :: "DeployConfig \<Rightarrow> string" where
  "health_url config =
     (''http://'' @ py_str (service_name config) @ ''.'' @ py_str (namespace config)
        @ ''.svc.cluster.local'') @ py_str (health_check_path config)"

text \<open>
  The body of \<open>for attempt in range(5)\<close>, over the attempts still to make. A response with
  status 200 returns \<open>True\<close>; any other response falls out of the \<open>try\<close> and the loop goes
  on; an exception is logged and followed by the sleep. The loop running out returns
  \<open>False\<close>.
\<close>

fun health_attempts :: "world \<Rightarrow> string \<Rightarrow> nat list \<Rightarrow> bool \<times> event list" where
  "health_attempts w url [] = (False, [])"
| "health_attempts w url (attempt # rest) =
     (case get_result w attempt url of
        Inr status \<Rightarrow>
          if status = 200 then (True, [Get url 10, Log INFO ''Health check passed''])
          else (case health_attempts w url rest of (b, t) \<Rightarrow> (b, Get url 10 # t))
      | Inl e \<Rightarrow>
          (case health_attempts w url rest of
             (b, t) \<Rightarrow>
               (b, [Get url 10,
                    Log WARNING (''Health check attempt '' @ str_nat (attempt + 1)
                                   @ '' failed: '' @ str_exn e),
                    Sleep 10] @ t)))"

definition verify_health :: "DeployConfig \<Rightarrow> world \<Rightarrow> (exn + bool) \<times> event list" where
  "verify_health config w =
     (case health_attempts w (health_url config) [0..<5] of (b, t) \<Rightarrow> (Inr b, t))"

definition rollback_cmd :: "DeployConfig \<Rightarrow> pyval list" where
  "rollback_cmd config =
     kubectl_cmd config @
       [PStr ''rollout'', PStr ''undo'', PStr (''deployment/'' @ py_str (service_name config))]"

text \<open>\<open>_rollback\<close> logs, runs the undo command and drops its result.\<close>

definition rollback :: "DeployConfig \<Rightarrow> world \<Rightarrow> (exn + unit) \<times> event list" where
  "rollback config w =
     (case subprocess_run w (rollback_cmd config) of
        (Inl e, t) \<Rightarrow> (Inl e, Log WARNING ''Rolling back deployment'' # t)
      | (Inr result, t) \<Rightarrow> (Inr (), Log WARNING ''Rolling back deployment'' # t))"

text \<open>The statements inside the \<open>try\<close> of \<open>deploy\<close>; an exception leaves them at once.\<close>

definition deploy_body :: "DeployConfig \<Rightarrow> world \<Rightarrow> (exn + bool) \<times> event list" where
  "deploy_body config w =
     (let t0 = [Log INFO (''Starting deployment of '' @ py_str (service_name config)
                            @ '':'' @ py_str (image_tag config))]
      in case update_deployment config w of
           (Inl e, t1) \<Rightarrow> (Inl e, t0 @ t1)
         | (Inr updated, t1) \<Rightarrow>
             if \<not> updated then (Inr False, t0 @ t1)
             else
               (case wait_for_rollout config w of
                  (Inl e, t2) \<Rightarrow> (Inl e, t0 @ t1 @ t2)
                | (Inr rolled, t2) \<Rightarrow>
                    if \<not> rolled then
                      (if truthy (rollback_on_failure config)
                       then (case rollback config w of
                               (Inl e, t3) \<Rightarrow> (Inl e, t0 @ t1 @ t2 @ t3)
                             | (Inr u, t3) \<Rightarrow> (Inr False, t0 @ t1 @ t2 @ t3))
                       else (Inr False, t0 @ t1 @ t2))
                    else
                      (case verify_health config w of
                         (Inl e, t3) \<Rightarrow> (Inl e, t0 @ t1 @ t2 @ t3)
                       | (Inr healthy, t3) \<Rightarrow>
                           if \<not> healthy
                           then (Inr False, t0 @ t1 @ t2 @ t3
                                   @ [Log ERROR ''Health check failed after deployment''])
                           else (Inr True, t0 @ t1 @ t2 @ t3
                                   @ [Log INFO ''Deployment completed successfully'']))))"

text \<open>
  \<open>deploy\<close>: the body under \<open>except Exception as e\<close>, which logs and returns \<open>False\<close>. The
  result stays a sum, so that an exception reaching the caller would show as \<open>Inl\<close>.
\<close>

definition deploy :: "DeployConfig \<Rightarrow> world \<Rightarrow> (exn + bool) \<times> event list" where
  "deploy config w =
     (case deploy_body config w of
        (Inl e, t) \<Rightarrow> (Inr False, t @ [Log ERROR (''Deployment failed: '' @ str_exn e)])
      | (Inr b, t) \<Rightarrow> (Inr b, t))"

text \<open>
  \<open>main\<close> on \<open>sys.argv\<close>: the result is the exit status given to \<open>sys.exit\<close>. The two final
  log messages start with a non-ASCII glyph in the source, which is left out here.
\<close>

definition main :: "string list \<Rightarrow> world \<Rightarrow> int \<times> event list" where
  "main argv w =
     (if length argv \<noteq> 3 then (1, [Print ''Usage: deploy.py <config-file> <image-tag>''])
      else
        (let config_file = argv ! 1; tag = argv ! 2
         in case load_config w config_file of
              Inl e \<Rightarrow> (1, [Log ERROR (''Script failed: '' @ str_exn e)])
            | Inr loaded \<Rightarrow>
                (let config = loaded\<lparr>image_tag := PStr tag\<rparr>
                 in case deploy config w of
                      (Inl e, t) \<Rightarrow> (1, t @ [Log ERROR (''Script failed: '' @ str_exn e)])
                    | (Inr success, t) \<Rightarrow>
                        if success then (0, t @ [Log INFO ''Deployment successful!''])
                        else (1, t @ [Log ERROR ''Deployment failed!'']))))"

section \<open>The invariant of the specification\<close>

text \<open>
  The data model of the specification states an invariant of \<open>DeployConfig\<close>: the timeout is
  positive, the replica count is at least one, and the service identifier and the
  namespace are non-empty, DNS-label-safe strings. The two definitions below follow these
  words, not the code; a DNS label is read as in RFC 1123: at most 63 characters, each a
  lower-case letter, a digit or a hyphen, with no hyphen first or last.
\<close>

definition dns_label_safe :: "string \<Rightarrow> bool" where
  "dns_label_safe s \<longleftrightarrow>
     s \<noteq> [] \<and> length s \<le> 63
     \<and> list_all (\<lambda>c. c \<in> set ''abcdefghijklmnopqrstuvwxyz0123456789-'') s
     \<and> hd s \<noteq> CHR ''-'' \<and> last s \<noteq> CHR ''-''"

definition config_invariant :: "DeployConfig \<Rightarrow> bool" where
  "config_invariant config \<longleftrightarrow>
     (case timeout_seconds config of PInt n \<Rightarrow> 0 < n | _ \<Rightarrow> False)
     \<and> (case replicas config of PInt n \<Rightarrow> 1 \<le> n | _ \<Rightarrow> False)
     \<and> (case service_name config of PStr s \<Rightarrow> dns_label_safe s | _ \<Rightarrow> False)
     \<and> (case namespace config of PStr s \<Rightarrow> dns_label_safe s | _ \<Rightarrow> False)"

section \<open>Reading a trace\<close>

fun is_Get :: "event \<Rightarrow> bool" where
  "is_Get (Get url t) = True"
| "is_Get e = False"

fun is_Sleep :: "event \<Rightarrow> bool" where
  "is_Sleep (Sleep n) = True"
| "is_Sleep e = False"

text \<open>The number of probe attempts a trace holds.\<close>

definition probes :: "event list \<Rightarrow> nat" where
  "probes t = length (filter is_Get t)"

section \<open>Example configurations and collaborators\<close>

definition example_config :: DeployConfig where
  "example_config =
     \<lparr> service_name = PStr ''api'', image_tag = PStr ''v2'', namespace = PStr ''prod'',
       replicas = PInt 3, health_check_path = PStr ''/health'', timeout_seconds = PInt 60,
       rollback_on_failure = PBool True \<rparr>"

definition completed :: "int \<Rightarrow> string \<Rightarrow> exn + CompletedProcess" where
  "completed rc err = Inr \<lparr> returncode = rc, stdout = [], stderr = err \<rparr>"

text \<open>
  Collaborators that answer the update, rollout and undo commands of a configuration as
  given, and the successive probes with the listed responses (a probe beyond the list
  times out).
\<close>

definition example_world ::
  "DeployConfig \<Rightarrow> (exn + CompletedProcess) \<Rightarrow> (exn + CompletedProcess) \<Rightarrow>
     (exn + CompletedProcess) \<Rightarrow> (exn + int) list \<Rightarrow> world" where
  "example_world config upd roll undo responses =
     \<lparr> subprocess_result =
         (\<lambda>cmd. if cmd = update_cmd config then upd
                else if cmd = rollout_cmd config then roll
                else undo),
       get_result =
         (\<lambda>n url. if n < length responses then responses ! n
                   else Inl (TimeoutError ''timed out'')),
       files = Map.empty \<rparr>"

definition flaky_world :: world where
  "flaky_world =
     example_world example_config (completed 0 []) (completed 0 []) (completed 0 [])
       [Inr 503, Inr 503, Inr 200]"

definition update_fail_world :: world where
  "update_fail_world =
     example_world example_config (completed 1 ''error: unable to find container named api'')
       (completed 0 []) (completed 0 []) []"

definition rollout_fail_world :: "DeployConfig \<Rightarrow> world" where
  "rollout_fail_world config =
     example_world config (completed 0 [])
       (completed 1 ''error: timed out waiting for the condition'')
       (completed 1 ''error: no rollout history found'') []"

definition no_rollback_config :: DeployConfig where
  "no_rollback_config = example_config\<lparr>rollback_on_failure := PBool False\<rparr>"

definition unhealthy_world :: world where
  "unhealthy_world =
     example_world example_config (completed 0 []) (completed 0 []) (completed 0 [])
       [Inr 503, Inl (TimeoutError ''timed out''), Inr 500, Inr 503, Inr 404]"

definition update_raises_world :: world where
  "update_raises_world =
     example_world example_config (Inl (FileNotFoundError ''No such file or directory: kubectl''))
       (completed 0 []) (completed 0 []) []"

definition rollout_raises_world :: world where
  "rollout_raises_world =
     example_world example_config (completed 0 [])
       (Inl (OSError ''Cannot allocate memory'')) (completed 0 []) []"

definition unchecked_config :: DeployConfig where
  "unchecked_config =
     \<lparr> service_name = PStr ''Bad_Name!'', image_tag = PStr ''v2'', namespace = PStr [],
       replicas = PInt 0, health_check_path = PStr ''/health'', timeout_seconds = PInt 0,
       rollback_on_failure = PBool True \<rparr>"

definition unchecked_world :: world where
  "unchecked_world =
     (example_world unchecked_config (completed 0 []) (completed 0 []) (completed 0 [])
        [Inr 200])
     \<lparr> files :=
         [''deploy.yaml'' \<mapsto>
            Parsed (Mapping [(''service_name'', PStr ''Bad_Name!''), (''image_tag'', PStr ''old''),
                             (''namespace'', PStr []), (''replicas'', PInt 0),
                             (''timeout_seconds'', PInt 0)])] \<rparr>"

definition example_mapping :: "(string \<times> pyval) list" where
  "example_mapping =
     [(''service_name'', PStr ''api''), (''image_tag'', PStr ''old''),
      (''namespace'', PStr ''prod''), (''timeout_seconds'', PInt 60)]"

definition example_file_world :: world where
  "example_file_world =
     flaky_world \<lparr> files := [''deploy.yaml'' \<mapsto> Parsed (Mapping example_mapping)] \<rparr>"

definition tagless_world :: world where
  "tagless_world =
     flaky_world
     \<lparr> files :=
         [''deploy.yaml'' \<mapsto>
            Parsed (Mapping [(''service_name'', PStr ''api''), (''namespace'', PStr ''prod''),
                             (''timeout_seconds'', PInt 60)])] \<rparr>"

section \<open>The health check\<close>

lemma probes_simps [simp]:
  "probes [] = 0"
  "probes (Get u n # t) = Suc (probes t)"
  "probes (Log l m # t) = probes t"
  "probes (Sleep n # t) = probes t"
  "probes (Run c # t) = probes t"
  "probes (Print m # t) = probes t"
  by (simp_all add: probes_def)

lemma health_attempts_result:
  "fst (health_attempts w url as) \<longleftrightarrow> (\<exists>a \<in> set as. get_result w a url = Inr 200)"
  by (induction as) (auto split: sum.splits prod.splits)

lemma health_attempts_bound: "probes (snd (health_attempts w url as)) \<le> length as"
  by (induction as) (auto split: sum.splits prod.splits)

lemma health_attempts_exhausted:
  "\<not> fst (health_attempts w url as) \<Longrightarrow> probes (snd (health_attempts w url as)) = length as"
  by (induction as) (auto split: sum.splits prod.splits if_splits)

lemma health_attempts_first:
  "\<forall>b \<in> set pre. get_result w b url \<noteq> Inr 200 \<Longrightarrow> get_result w a url = Inr 200 \<Longrightarrow>
     probes (snd (health_attempts w url (pre @ a # post))) = Suc (length pre)"
  by (induction pre) (auto split: sum.splits prod.splits if_splits)

lemma health_attempts_no_run: "Run c \<notin> set (snd (health_attempts w url as))"
  by (induction as) (auto split: sum.splits prod.splits if_splits)

lemma upt_split: "i < n \<Longrightarrow> [0..<n] = [0..<i] @ i # [Suc i..<n]"
proof -
  assume "i < n"
  then have "[0..<n] = [0..<i] @ [i..<n]"
    by (metis le0 less_imp_le_nat le_add_diff_inverse upt_add_eq_append)
  with \<open>i < n\<close> show ?thesis
    by (simp add: upt_conv_Cons)
qed

lemma attempts5: "[0..<5] = [0, 1, 2, 3, 4]"
  by (simp add: upt_conv_Cons)

lemma example_url: "health_url example_config = ''http://api.prod.svc.cluster.local/health''"
  by (simp add: health_url_def example_config_def)

text \<open>
  C2. The health check makes at most five probe attempts. It returns \<open>True\<close> exactly when
  one of the five attempts answers with status 200, and then it has made as many attempts
  as it takes to reach the first such answer; it returns \<open>False\<close> exactly when none of the
  five does (a response with another status or an exception), and then it has made all
  five.
\<close>

theorem verify_health_attempts:
  "probes (snd (verify_health config w)) \<le> 5
   \<and> (fst (verify_health config w) = Inr True
        \<longleftrightarrow> (\<exists>i<5. get_result w i (health_url config) = Inr 200))
   \<and> (fst (verify_health config w) = Inr False
        \<longleftrightarrow> (\<forall>i<5. get_result w i (health_url config) \<noteq> Inr 200))
   \<and> (\<forall>i<5. get_result w i (health_url config) = Inr 200
          \<and> (\<forall>j<i. get_result w j (health_url config) \<noteq> Inr 200)
        \<longrightarrow> probes (snd (verify_health config w)) = i + 1)
   \<and> (fst (verify_health config w) = Inr False \<longrightarrow> probes (snd (verify_health config w)) = 5)"
proof -
  let ?url = "health_url config"
  let ?h = "health_attempts w ?url [0..<5]"
  have v: "verify_health config w = (Inr (fst ?h), snd ?h)"
    by (simp add: verify_health_def split: prod.splits)
  have res: "fst ?h \<longleftrightarrow> (\<exists>i<5. get_result w i ?url = Inr 200)"
    using health_attempts_result [of w ?url "[0..<5]"] by auto
  have bound: "probes (snd ?h) \<le> 5"
    using health_attempts_bound [of w ?url "[0..<5]"] by simp
  have all: "\<not> fst ?h \<Longrightarrow> probes (snd ?h) = 5"
    using health_attempts_exhausted [of w ?url "[0..<5]"] by simp
  have first: "probes (snd ?h) = i + 1"
    if "i < 5" "get_result w i ?url = Inr 200" "\<forall>j<i. get_result w j ?url \<noteq> Inr 200" for i
  proof -
    have "[0..<5] = [0..<i] @ i # [Suc i..<5]"
      using that(1) by (rule upt_split)
    moreover have "\<forall>b \<in> set [0..<i]. get_result w b ?url \<noteq> Inr 200"
      using that(3) by simp
    ultimately show ?thesis
      using health_attempts_first [of "[0..<i]" w ?url i "[Suc i..<5]"] that(2) by simp
  qed
  show ?thesis
    using res bound all first by (auto simp: v)
qed

theorem verify_health_attempts_witness:
  "(2::nat) < 5 \<and> get_result flaky_world 2 (health_url example_config) = Inr 200
   \<and> get_result flaky_world 0 (health_url example_config) \<noteq> Inr 200
   \<and> get_result flaky_world 1 (health_url example_config) \<noteq> Inr 200
   \<and> fst (verify_health example_config flaky_world) = Inr True
   \<and> probes (snd (verify_health example_config flaky_world)) = 3"
proof -
  have g: "get_result flaky_world 2 (health_url example_config) = Inr 200"
    "get_result flaky_world 0 (health_url example_config) \<noteq> Inr 200"
    "get_result flaky_world 1 (health_url example_config) \<noteq> Inr 200"
    by (simp_all add: flaky_world_def example_world_def)
  have first: "\<forall>j<2. get_result flaky_world j (health_url example_config) \<noteq> Inr 200"
    using g by (auto simp: less_Suc_eq numeral_2_eq_2)
  have ex: "\<exists>i<5. get_result flaky_world i (health_url example_config) = Inr 200"
    using g(1) by (intro exI [of _ 2]) simp
  note t = verify_health_attempts [of example_config flaky_world]
  from t ex have "fst (verify_health example_config flaky_world) = Inr True"
    by blast
  moreover have "(2::nat) < 5" by simp
  with t g(1) first have "probes (snd (verify_health example_config flaky_world)) = 2 + 1"
    by blast
  ultimately show ?thesis
    using g by simp
qed

text \<open>
  C1. The scenario of the specification: the update and the rollout succeed and the
  probes answer 503, 503, 200. The health check succeeds at the third attempt, but it
  makes the three attempts back to back: a response with a status other than 200 raises
  nothing, so the handler that logs the attempt and sleeps ten seconds is not entered, and
  the trace holds no log line for the two failed attempts and no sleep.
\<close>

theorem verify_health_503_503_200:
  "verify_health example_config flaky_world =
     (Inr True,
      [Get ''http://api.prod.svc.cluster.local/health'' 10,
       Get ''http://api.prod.svc.cluster.local/health'' 10,
       Get ''http://api.prod.svc.cluster.local/health'' 10,
       Log INFO ''Health check passed''])
   \<and> filter is_Sleep (snd (verify_health example_config flaky_world)) = []
   \<and> probes (snd (verify_health example_config flaky_world)) = 3"
  by (simp add: verify_health_def example_url attempts5 flaky_world_def example_world_def)

section \<open>The paths of a deployment\<close>

text \<open>
  \<open>deploy\<close> returns a \<open>bool\<close>. The outcomes the specification names are told apart by the
  run that leads to the result: \<open>UpdateFailed\<close> is \<open>False\<close> after the line
  \<open>Failed to update deployment\<close>, \<open>RolledBack\<close> is \<open>False\<close> after the warning
  \<open>Rolling back deployment\<close> and the undo command, \<open>RolloutFailed\<close> is \<open>False\<close> right after the
  rollout command, \<open>HealthCheckFailed\<close> is \<open>False\<close> after the line
  \<open>Health check failed after deployment\<close>, and \<open>Success\<close> is \<open>True\<close>.
\<close>

lemma cmds_distinct:
  "update_cmd c \<noteq> rollout_cmd c" "update_cmd c \<noteq> rollback_cmd c"
  "rollout_cmd c \<noteq> rollback_cmd c" "rollback_cmd c \<noteq> update_cmd c"
  "rollback_cmd c \<noteq> rollout_cmd c"  "rollout_cmd c \<noteq> update_cmd c"
  by (simp_all add: update_cmd_def rollout_cmd_def rollback_cmd_def kubectl_cmd_def)

lemma verify_health_no_run: "Run c \<notin> set (snd (verify_health config w))"
  using health_attempts_no_run [of c w "health_url config" "[0..<5]"]
  by (cases "health_attempts w (health_url config) [0..<5]") (simp add: verify_health_def)

lemmas step_defs = deploy_def deploy_body_def update_deployment_def wait_for_rollout_def
  rollback_def subprocess_run_def Let_def

text \<open>
  C4. When the update command returns a non-zero status, \<open>deploy\<close> returns \<open>False\<close> after
  logging the command's error text, and the run consists of the start message, the update
  command and that error line: neither the rollout wait nor the undo command is run.
\<close>

theorem update_failure:
  assumes "subprocess_result w (update_cmd config) = Inr r" and "returncode r \<noteq> 0"
  shows "deploy config w =
           (Inr False,
            [Log INFO (''Starting deployment of '' @ py_str (service_name config) @ '':''
                         @ py_str (image_tag config)),
             Run (update_cmd config),
             Log ERROR (''Failed to update deployment: '' @ stderr r)])
         \<and> Run (rollout_cmd config) \<notin> set (snd (deploy config w))
         \<and> Run (rollback_cmd config) \<notin> set (snd (deploy config w))"
  using assms by (simp add: step_defs cmds_distinct)

text \<open>
  C3. With \<open>rollback_on_failure\<close> set, when the update succeeds and the rollout wait
  returns a non-zero status, the undo command
  \<open>kubectl -n <namespace> rollout undo deployment/<service_name>\<close> is run exactly once, after
  the warning that announces the rollback, and \<open>deploy\<close> returns \<open>False\<close>. The result does not
  depend on the undo command: whatever it does, returning any status or raising, \<open>deploy\<close>
  returns \<open>False\<close>. The three commands are written out as the argument lists the source
  builds.
\<close>

theorem rollout_failure_rolls_back:
  assumes "truthy (rollback_on_failure config)"
    and "subprocess_result w
           [PStr ''kubectl'', PStr ''-n'', namespace config, PStr ''set'', PStr ''image'',
            PStr (''deployment/'' @ py_str (service_name config)),
            PStr (py_str (service_name config) @ ''='' @ py_str (image_tag config))] = Inr r1"
    and "returncode r1 = 0"
    and "subprocess_result w
           [PStr ''kubectl'', PStr ''-n'', namespace config, PStr ''rollout'', PStr ''status'',
            PStr (''deployment/'' @ py_str (service_name config)),
            PStr (''--timeout='' @ py_str (timeout_seconds config) @ ''s'')] = Inr r2"
    and "returncode r2 \<noteq> 0"
  shows "fst (deploy config w) = Inr False
         \<and> count_list (snd (deploy config w))
              (Run [PStr ''kubectl'', PStr ''-n'', namespace config, PStr ''rollout'',
                    PStr ''undo'', PStr (''deployment/'' @ py_str (service_name config))]) = 1
         \<and> snd (deploy config w) =
             [Log INFO (''Starting deployment of '' @ py_str (service_name config) @ '':''
                          @ py_str (image_tag config)),
              Run [PStr ''kubectl'', PStr ''-n'', namespace config, PStr ''set'', PStr ''image'',
                   PStr (''deployment/'' @ py_str (service_name config)),
                   PStr (py_str (service_name config) @ ''='' @ py_str (image_tag config))],
              Log INFO ''Deployment updated successfully'',
              Run [PStr ''kubectl'', PStr ''-n'', namespace config, PStr ''rollout'',
                   PStr ''status'', PStr (''deployment/'' @ py_str (service_name config)),
                   PStr (''--timeout='' @ py_str (timeout_seconds config) @ ''s'')],
              Log WARNING ''Rolling back deployment'',
              Run [PStr ''kubectl'', PStr ''-n'', namespace config, PStr ''rollout'',
                   PStr ''undo'', PStr (''deployment/'' @ py_str (service_name config))]]
             @ (case subprocess_result w
                       [PStr ''kubectl'', PStr ''-n'', namespace config, PStr ''rollout'',
                        PStr ''undo'', PStr (''deployment/'' @ py_str (service_name config))] of
                  Inl e \<Rightarrow> [Log ERROR (''Deployment failed: '' @ str_exn e)]
                | Inr u \<Rightarrow> [])
         \<and> (\<forall>undo. fst (deploy config
                 (w\<lparr>subprocess_result :=
                      (subprocess_result w)
                        ([PStr ''kubectl'', PStr ''-n'', namespace config, PStr ''rollout'',
                          PStr ''undo'', PStr (''deployment/'' @ py_str (service_name config))]
                         := undo)\<rparr>))
               = Inr False)"
proof -
  let ?undo = "[PStr ''kubectl'', PStr ''-n'', namespace config, PStr ''rollout'',
                PStr ''undo'', PStr (''deployment/'' @ py_str (service_name config))]"
  let ?upd = "[PStr ''kubectl'', PStr ''-n'', namespace config, PStr ''set'', PStr ''image'',
               PStr (''deployment/'' @ py_str (service_name config)),
               PStr (py_str (service_name config) @ ''='' @ py_str (image_tag config))]"
  let ?roll = "[PStr ''kubectl'', PStr ''-n'', namespace config, PStr ''rollout'',
                PStr ''status'', PStr (''deployment/'' @ py_str (service_name config)),
                PStr (''--timeout='' @ py_str (timeout_seconds config) @ ''s'')]"
  have cmds: "rollback_cmd config = ?undo" "update_cmd config = ?upd" "rollout_cmd config = ?roll"
    by (simp_all add: rollback_cmd_def update_cmd_def rollout_cmd_def kubectl_cmd_def)
  have u: "subprocess_result w (update_cmd config) = Inr r1"
    and r: "subprocess_result w (rollout_cmd config) = Inr r2"
    using assms(2,4) by (simp_all only: cmds)
  note hyps = assms(1) u assms(3) r assms(5)
  have res: "fst (deploy config w) = Inr False"
    using hyps by (auto simp: step_defs cmds_distinct split: sum.splits)
  have run: "snd (deploy config w) =
             [Log INFO (''Starting deployment of '' @ py_str (service_name config) @ '':''
                          @ py_str (image_tag config)),
              Run (update_cmd config),
              Log INFO ''Deployment updated successfully'',
              Run (rollout_cmd config),
              Log WARNING ''Rolling back deployment'',
              Run (rollback_cmd config)]
             @ (case subprocess_result w (rollback_cmd config) of
                  Inl e \<Rightarrow> [Log ERROR (''Deployment failed: '' @ str_exn e)]
                | Inr u \<Rightarrow> [])"
    using hyps by (auto simp: step_defs cmds_distinct split: sum.splits)
  have once: "count_list (snd (deploy config w)) (Run (rollback_cmd config)) = 1"
    unfolding run by (simp add: cmds_distinct split: sum.splits)
  have any: "fst (deploy config
                 (w\<lparr>subprocess_result := (subprocess_result w)(rollback_cmd config := undo)\<rparr>))
               = Inr False" for undo
    using hyps by (auto simp: step_defs cmds_distinct split: sum.splits)
  show ?thesis
    using res run once any unfolding cmds by simp
qed

text \<open>
  C5. With \<open>rollback_on_failure\<close> not set, no run of \<open>deploy\<close> runs the undo command; when
  the update succeeds and the rollout wait returns a non-zero status, \<open>deploy\<close> returns
  \<open>False\<close> right after the rollout command.
\<close>

theorem rollout_failure_without_rollback:
  assumes "\<not> truthy (rollback_on_failure config)"
  shows "Run (rollback_cmd config) \<notin> set (snd (deploy config w))
         \<and> ((\<exists>r1 r2. subprocess_result w (update_cmd config) = Inr r1 \<and> returncode r1 = 0
                \<and> subprocess_result w (rollout_cmd config) = Inr r2 \<and> returncode r2 \<noteq> 0)
              \<longrightarrow> deploy config w =
                    (Inr False,
                     [Log INFO (''Starting deployment of '' @ py_str (service_name config)
                                  @ '':'' @ py_str (image_tag config)),
                      Run (update_cmd config),
                      Log INFO ''Deployment updated successfully'',
                      Run (rollout_cmd config)]))"
  using assms verify_health_no_run [of "rollback_cmd config" config w]
  by (auto simp: step_defs cmds_distinct split: sum.splits prod.splits)

text \<open>
  C6. The undo command is run only from the branch of a failed rollout wait: a run holds
  it only if \<open>rollback_on_failure\<close> is set, the update succeeded and the rollout wait
  returned a non-zero status. In particular, when the update and the rollout wait succeed
  and the health check fails, \<open>deploy\<close> logs the failure and returns \<open>False\<close> without running
  the undo command, whatever \<open>rollback_on_failure\<close> is.
\<close>

theorem health_failure_no_rollback:
  "(Run (rollback_cmd config) \<in> set (snd (deploy config w)) \<longrightarrow>
      truthy (rollback_on_failure config)
      \<and> (\<exists>r. subprocess_result w (update_cmd config) = Inr r \<and> returncode r = 0)
      \<and> (\<exists>r. subprocess_result w (rollout_cmd config) = Inr r \<and> returncode r \<noteq> 0))
   \<and> ((\<exists>r. subprocess_result w (update_cmd config) = Inr r \<and> returncode r = 0)
        \<and> (\<exists>r. subprocess_result w (rollout_cmd config) = Inr r \<and> returncode r = 0)
        \<and> fst (verify_health config w) = Inr False \<longrightarrow>
      deploy config w =
        (Inr False,
         [Log INFO (''Starting deployment of '' @ py_str (service_name config)
                      @ '':'' @ py_str (image_tag config)),
          Run (update_cmd config),
          Log INFO ''Deployment updated successfully'',
          Run (rollout_cmd config)]
         @ snd (verify_health config w)
         @ [Log ERROR ''Health check failed after deployment''])
      \<and> Run (rollback_cmd config) \<notin> set (snd (deploy config w)))"
  using verify_health_no_run [of "rollback_cmd config" config w]
  by (auto simp: step_defs cmds_distinct split: sum.splits prod.splits if_splits)

text \<open>
  C10. When the update command raises, or the update succeeds and the rollout command
  raises, the handler of \<open>deploy\<close> logs the exception and returns \<open>False\<close>; the undo command
  is not run, whatever \<open>rollback_on_failure\<close> is.
\<close>

theorem exception_bypasses_rollback:
  assumes "subprocess_result w (update_cmd config) = Inl e
           \<or> (\<exists>r. subprocess_result w (update_cmd config) = Inr r \<and> returncode r = 0)
               \<and> subprocess_result w (rollout_cmd config) = Inl e"
  shows "fst (deploy config w) = Inr False
         \<and> Run (rollback_cmd config) \<notin> set (snd (deploy config w))
         \<and> last (snd (deploy config w)) = Log ERROR (''Deployment failed: '' @ str_exn e)"
  using assms by (auto simp: step_defs cmds_distinct split: sum.splits prod.splits)

lemma example_world_simps:
  "subprocess_result (example_world c u r d ps) (update_cmd c) = u"
  "subprocess_result (example_world c u r d ps) (rollout_cmd c) = r"
  "subprocess_result (example_world c u r d ps) (rollback_cmd c) = d"
  by (simp_all add: example_world_def cmds_distinct)

lemma example_cmds:
  "update_cmd example_config =
     [PStr ''kubectl'', PStr ''-n'', PStr ''prod'', PStr ''set'', PStr ''image'',
      PStr ''deployment/api'', PStr ''api=v2'']"
  "rollout_cmd example_config =
     [PStr ''kubectl'', PStr ''-n'', PStr ''prod'', PStr ''rollout'', PStr ''status'',
      PStr ''deployment/api'', PStr ''--timeout=60s'']"
  "rollback_cmd example_config =
     [PStr ''kubectl'', PStr ''-n'', PStr ''prod'', PStr ''rollout'', PStr ''undo'',
      PStr ''deployment/api'']"
  by (simp_all add: update_cmd_def rollout_cmd_def rollback_cmd_def kubectl_cmd_def
      example_config_def str_int_def str_nat.simps)

theorem update_failure_witness:
  "subprocess_result update_fail_world (update_cmd example_config)
     = completed 1 ''error: unable to find container named api''
   \<and> deploy example_config update_fail_world =
       (Inr False,
        [Log INFO ''Starting deployment of api:v2'',
         Run [PStr ''kubectl'', PStr ''-n'', PStr ''prod'', PStr ''set'', PStr ''image'',
              PStr ''deployment/api'', PStr ''api=v2''],
         Log ERROR ''Failed to update deployment: error: unable to find container named api''])
   \<and> Run (rollout_cmd example_config) \<notin> set (snd (deploy example_config update_fail_world))
   \<and> Run (rollback_cmd example_config) \<notin> set (snd (deploy example_config update_fail_world))"
proof -
  let ?r = "\<lparr> returncode = 1, stdout = [], stderr = ''error: unable to find container named api'' \<rparr>"
  have h: "subprocess_result update_fail_world (update_cmd example_config) = Inr ?r"
    by (simp add: update_fail_world_def example_world_simps completed_def)
  have "returncode ?r \<noteq> 0" by simp
  with h have t: "deploy example_config update_fail_world =
           (Inr False,
            [Log INFO (''Starting deployment of '' @ py_str (service_name example_config) @ '':''
                         @ py_str (image_tag example_config)),
             Run (update_cmd example_config),
             Log ERROR (''Failed to update deployment: '' @ stderr ?r)])
         \<and> Run (rollout_cmd example_config) \<notin> set (snd (deploy example_config update_fail_world))
         \<and> Run (rollback_cmd example_config) \<notin> set (snd (deploy example_config update_fail_world))"
    by (rule update_failure)
  have "py_str (service_name example_config) = ''api''" "py_str (image_tag example_config) = ''v2''"
    by (simp_all add: example_config_def)
  with t h show ?thesis
    by (simp add: completed_def example_cmds)
qed

lemma example_strs:
  "py_str (service_name example_config) = ''api''"
  "py_str (image_tag example_config) = ''v2''"
  "py_str (service_name no_rollback_config) = ''api''"
  "py_str (image_tag no_rollback_config) = ''v2''"
  by (simp_all add: example_config_def no_rollback_config_def)

theorem rollout_failure_rolls_back_witness:
  "truthy (rollback_on_failure example_config)
   \<and> subprocess_result (rollout_fail_world example_config)
         [PStr ''kubectl'', PStr ''-n'', PStr ''prod'', PStr ''set'', PStr ''image'',
          PStr ''deployment/api'', PStr ''api=v2'']
       = completed 0 []
   \<and> subprocess_result (rollout_fail_world example_config)
         [PStr ''kubectl'', PStr ''-n'', PStr ''prod'', PStr ''rollout'', PStr ''status'',
          PStr ''deployment/api'', PStr ''--timeout=60s'']
       = completed 1 ''error: timed out waiting for the condition''
   \<and> fst (deploy example_config (rollout_fail_world example_config)) = Inr False
   \<and> count_list (snd (deploy example_config (rollout_fail_world example_config)))
        (Run [PStr ''kubectl'', PStr ''-n'', PStr ''prod'', PStr ''rollout'', PStr ''undo'',
              PStr ''deployment/api'']) = 1
   \<and> snd (deploy example_config (rollout_fail_world example_config)) =
       [Log INFO ''Starting deployment of api:v2'',
        Run [PStr ''kubectl'', PStr ''-n'', PStr ''prod'', PStr ''set'', PStr ''image'',
             PStr ''deployment/api'', PStr ''api=v2''],
        Log INFO ''Deployment updated successfully'',
        Run [PStr ''kubectl'', PStr ''-n'', PStr ''prod'', PStr ''rollout'', PStr ''status'',
             PStr ''deployment/api'', PStr ''--timeout=60s''],
        Log WARNING ''Rolling back deployment'',
        Run [PStr ''kubectl'', PStr ''-n'', PStr ''prod'', PStr ''rollout'', PStr ''undo'',
             PStr ''deployment/api'']]
   \<and> fst (deploy example_config
         ((rollout_fail_world example_config)
            \<lparr>subprocess_result :=
               (subprocess_result (rollout_fail_world example_config))
                 ([PStr ''kubectl'', PStr ''-n'', PStr ''prod'', PStr ''rollout'', PStr ''undo'',
                   PStr ''deployment/api'']
                  := Inl (OSError ''Cannot allocate memory''))\<rparr>))
       = Inr False"
proof -
  let ?w = "rollout_fail_world example_config"
  let ?upd = "[PStr ''kubectl'', PStr ''-n'', PStr ''prod'', PStr ''set'', PStr ''image'',
               PStr ''deployment/api'', PStr ''api=v2'']"
  let ?roll = "[PStr ''kubectl'', PStr ''-n'', PStr ''prod'', PStr ''rollout'', PStr ''status'',
                PStr ''deployment/api'', PStr ''--timeout=60s'']"
  let ?undo = "[PStr ''kubectl'', PStr ''-n'', PStr ''prod'', PStr ''rollout'', PStr ''undo'',
                PStr ''deployment/api'']"
  let ?r1 = "\<lparr> returncode = 0, stdout = [], stderr = [] \<rparr>"
  let ?r2 = "\<lparr> returncode = 1, stdout = [],
               stderr = ''error: timed out waiting for the condition'' \<rparr>"
  have flag: "truthy (rollback_on_failure example_config)"
    by (simp add: example_config_def)
  have fields: "namespace example_config = PStr ''prod''"
    "py_str (service_name example_config) = ''api''"
    "py_str (image_tag example_config) = ''v2''"
    "py_str (timeout_seconds example_config) = ''60''"
    by (simp_all add: example_config_def str_int_def str_nat.simps)
  have u: "subprocess_result ?w ?upd = Inr ?r1"
    and r: "subprocess_result ?w ?roll = Inr ?r2"
    and d: "subprocess_result ?w ?undo = completed 1 ''error: no rollout history found''"
    using example_world_simps
      [of example_config "completed 0 []"
        "completed 1 ''error: timed out waiting for the condition''"
        "completed 1 ''error: no rollout history found''" "[]"]
    by (simp_all add: rollout_fail_world_def example_cmds completed_def)
  have c1: "returncode ?r1 = 0" and c2: "returncode ?r2 \<noteq> 0"
    by simp_all
  have u': "subprocess_result ?w
              [PStr ''kubectl'', PStr ''-n'', namespace example_config, PStr ''set'',
               PStr ''image'', PStr (''deployment/'' @ py_str (service_name example_config)),
               PStr (py_str (service_name example_config) @ ''=''
                       @ py_str (image_tag example_config))] = Inr ?r1"
    using u by (simp add: fields)
  have r': "subprocess_result ?w
              [PStr ''kubectl'', PStr ''-n'', namespace example_config, PStr ''rollout'',
               PStr ''status'', PStr (''deployment/'' @ py_str (service_name example_config)),
               PStr (''--timeout='' @ py_str (timeout_seconds example_config) @ ''s'')]
            = Inr ?r2"
    using r by (simp add: fields)
  note t = rollout_failure_rolls_back [OF flag u' c1 r' c2, unfolded fields append.simps]
  have "fst (deploy example_config ?w) = Inr False"
    by (rule t [THEN conjunct1])
  moreover have "count_list (snd (deploy example_config ?w)) (Run ?undo) = 1"
    by (rule t [THEN conjunct2, THEN conjunct1])
  moreover have "fst (deploy example_config
           (?w\<lparr>subprocess_result := (subprocess_result ?w)(?undo := undo)\<rparr>)) = Inr False"
    for undo
    by (rule t [THEN conjunct2, THEN conjunct2, THEN conjunct2, THEN spec])
  moreover have "snd (deploy example_config ?w) =
       [Log INFO ''Starting deployment of api:v2'', Run ?upd,
        Log INFO ''Deployment updated successfully'', Run ?roll,
        Log WARNING ''Rolling back deployment'', Run ?undo]"
    using t [THEN conjunct2, THEN conjunct2, THEN conjunct1] d
    by (simp add: completed_def)
  ultimately show ?thesis
    using flag u r by (simp add: completed_def)
qed

theorem rollout_failure_without_rollback_witness:
  "\<not> truthy (rollback_on_failure no_rollback_config)
   \<and> subprocess_result (rollout_fail_world no_rollback_config) (rollout_cmd no_rollback_config)
       = completed 1 ''error: timed out waiting for the condition''
   \<and> Run (rollback_cmd no_rollback_config)
       \<notin> set (snd (deploy no_rollback_config (rollout_fail_world no_rollback_config)))
   \<and> deploy no_rollback_config (rollout_fail_world no_rollback_config) =
       (Inr False,
        [Log INFO ''Starting deployment of api:v2'',
         Run (update_cmd no_rollback_config),
         Log INFO ''Deployment updated successfully'',
         Run (rollout_cmd no_rollback_config)])"
proof -
  let ?c = no_rollback_config
  let ?w = "rollout_fail_world ?c"
  have flag: "\<not> truthy (rollback_on_failure ?c)"
    by (simp add: no_rollback_config_def)
  have u: "subprocess_result ?w (update_cmd ?c) = completed 0 []"
    and r: "subprocess_result ?w (rollout_cmd ?c)
              = completed 1 ''error: timed out waiting for the condition''"
    by (simp_all add: rollout_fail_world_def example_world_simps)
  have ex: "\<exists>r1 r2. subprocess_result ?w (update_cmd ?c) = Inr r1 \<and> returncode r1 = 0
              \<and> subprocess_result ?w (rollout_cmd ?c) = Inr r2 \<and> returncode r2 \<noteq> 0"
    using u r by (simp add: completed_def)
  note t = rollout_failure_without_rollback [OF flag, of ?w]
  from t have "Run (rollback_cmd ?c) \<notin> set (snd (deploy ?c ?w))"
    by blast
  moreover from t ex have "deploy ?c ?w =
       (Inr False,
        [Log INFO (''Starting deployment of '' @ py_str (service_name ?c) @ '':''
                     @ py_str (image_tag ?c)),
         Run (update_cmd ?c),
         Log INFO ''Deployment updated successfully'',
         Run (rollout_cmd ?c)])"
    by blast
  ultimately show ?thesis
    using flag r by (simp add: example_strs)
qed

lemma unhealthy: "fst (verify_health example_config unhealthy_world) = Inr False"
  by (simp add: verify_health_def example_url attempts5 unhealthy_world_def example_world_def)

theorem health_failure_no_rollback_witness:
  "Run (rollback_cmd example_config)
     \<in> set (snd (deploy example_config (rollout_fail_world example_config)))
   \<and> truthy (rollback_on_failure example_config)
   \<and> subprocess_result (rollout_fail_world example_config) (rollout_cmd example_config)
       = completed 1 ''error: timed out waiting for the condition''
   \<and> subprocess_result unhealthy_world (update_cmd example_config) = completed 0 []
   \<and> subprocess_result unhealthy_world (rollout_cmd example_config) = completed 0 []
   \<and> fst (verify_health example_config unhealthy_world) = Inr False
   \<and> fst (deploy example_config unhealthy_world) = Inr False
   \<and> Run (rollback_cmd example_config) \<notin> set (snd (deploy example_config unhealthy_world))
   \<and> last (snd (deploy example_config unhealthy_world))
       = Log ERROR ''Health check failed after deployment''"
proof -
  let ?c = example_config
  have u: "subprocess_result unhealthy_world (update_cmd ?c) = completed 0 []"
    and r: "subprocess_result unhealthy_world (rollout_cmd ?c) = completed 0 []"
    by (simp_all add: unhealthy_world_def example_world_simps)
  have pre: "(\<exists>r. subprocess_result unhealthy_world (update_cmd ?c) = Inr r \<and> returncode r = 0)
        \<and> (\<exists>r. subprocess_result unhealthy_world (rollout_cmd ?c) = Inr r \<and> returncode r = 0)
        \<and> fst (verify_health ?c unhealthy_world) = Inr False"
    using u r unhealthy by (simp add: completed_def)
  note t = health_failure_no_rollback [of ?c unhealthy_world]
  from t pre have d: "deploy ?c unhealthy_world =
        (Inr False,
         [Log INFO (''Starting deployment of '' @ py_str (service_name ?c)
                      @ '':'' @ py_str (image_tag ?c)),
          Run (update_cmd ?c),
          Log INFO ''Deployment updated successfully'',
          Run (rollout_cmd ?c)]
         @ snd (verify_health ?c unhealthy_world)
         @ [Log ERROR ''Health check failed after deployment''])"
    and n: "Run (rollback_cmd ?c) \<notin> set (snd (deploy ?c unhealthy_world))"
    by blast+
  have flag: "truthy (rollback_on_failure ?c)"
    by (simp add: example_config_def)
  have ran: "Run (rollback_cmd ?c) \<in> set (snd (deploy ?c (rollout_fail_world ?c)))"
    using flag
    by (simp add: step_defs rollout_fail_world_def example_world_simps completed_def)
  with health_failure_no_rollback [of ?c "rollout_fail_world ?c"]
  have "truthy (rollback_on_failure ?c)"
    by blast
  moreover have "subprocess_result (rollout_fail_world ?c) (rollout_cmd ?c)
       = completed 1 ''error: timed out waiting for the condition''"
    by (simp add: rollout_fail_world_def example_world_simps)
  ultimately show ?thesis
    using ran u r unhealthy n by (simp add: d)
qed

theorem exception_bypasses_rollback_witness:
  "truthy (rollback_on_failure example_config)
   \<and> subprocess_result update_raises_world (update_cmd example_config)
       = Inl (FileNotFoundError ''No such file or directory: kubectl'')
   \<and> fst (deploy example_config update_raises_world) = Inr False
   \<and> Run (rollback_cmd example_config) \<notin> set (snd (deploy example_config update_raises_world))
   \<and> subprocess_result rollout_raises_world (update_cmd example_config) = completed 0 []
   \<and> subprocess_result rollout_raises_world (rollout_cmd example_config)
       = Inl (OSError ''Cannot allocate memory'')
   \<and> fst (deploy example_config rollout_raises_world) = Inr False
   \<and> Run (rollback_cmd example_config) \<notin> set (snd (deploy example_config rollout_raises_world))
   \<and> last (snd (deploy example_config rollout_raises_world))
       = Log ERROR ''Deployment failed: Cannot allocate memory''"
proof -
  let ?c = example_config
  have a: "subprocess_result update_raises_world (update_cmd ?c)
             = Inl (FileNotFoundError ''No such file or directory: kubectl'')"
    by (simp add: update_raises_world_def example_world_simps)
  have b: "subprocess_result rollout_raises_world (update_cmd ?c) = completed 0 []"
    "subprocess_result rollout_raises_world (rollout_cmd ?c)
       = Inl (OSError ''Cannot allocate memory'')"
    by (simp_all add: rollout_raises_world_def example_world_simps)
  from a have "fst (deploy ?c update_raises_world) = Inr False
         \<and> Run (rollback_cmd ?c) \<notin> set (snd (deploy ?c update_raises_world))
         \<and> last (snd (deploy ?c update_raises_world))
             = Log ERROR (''Deployment failed: ''
                 @ str_exn (FileNotFoundError ''No such file or directory: kubectl''))"
    by (intro exception_bypasses_rollback) simp
  moreover from b have "fst (deploy ?c rollout_raises_world) = Inr False
         \<and> Run (rollback_cmd ?c) \<notin> set (snd (deploy ?c rollout_raises_world))
         \<and> last (snd (deploy ?c rollout_raises_world))
             = Log ERROR (''Deployment failed: '' @ str_exn (OSError ''Cannot allocate memory''))"
    by (intro exception_bypasses_rollback) (simp add: completed_def)
  ultimately show ?thesis
    using a b by (simp add: example_config_def)
qed

section \<open>Uncaught faults\<close>

text \<open>
  C9. Whatever the configuration holds and whatever the collaborators do, returning or
  raising, \<open>deploy\<close> hands no exception to its caller: it returns \<open>True\<close> or \<open>False\<close>.
\<close>

theorem deploy_never_raises: "\<exists>b. fst (deploy config w) = Inr b"
  by (auto simp: deploy_def split: prod.splits sum.splits)

section \<open>Loading the configuration\<close>

lemma deploy_returns: "\<exists>b. deploy config w = (Inr b, snd (deploy config w))"
  by (auto simp: deploy_def split: prod.splits sum.splits)

lemma main_uses_cli_tag:
  assumes "load_config w path = Inr loaded"
  shows "main [prog, path, tag] w =
           (if fst (deploy (loaded\<lparr>image_tag := PStr tag\<rparr>) w) = Inr True
            then (0, snd (deploy (loaded\<lparr>image_tag := PStr tag\<rparr>) w)
                       @ [Log INFO ''Deployment successful!''])
            else (1, snd (deploy (loaded\<lparr>image_tag := PStr tag\<rparr>) w)
                       @ [Log ERROR ''Deployment failed!'']))"
proof -
  obtain b t where "deploy (loaded\<lparr>image_tag := PStr tag\<rparr>) w = (Inr b, t)"
    using deploy_returns by metis
  then show ?thesis
    using assms by (simp add: main_def)
qed

lemma find_fields:
  "\<forall>k \<in> set ks. k \<in> set field_names \<Longrightarrow> find (\<lambda>k. k \<notin> set field_names) ks = None"
  by (simp add: find_None_iff)

text \<open>
  C7, as the code has it. Loading checks only that every key of the mapping is a field
  and that \<open>service_name\<close> and \<open>image_tag\<close> are given. The configuration that \<open>main\<close> runs the
  deployment with holds the values of the file as they are, the defaults of the dataclass
  for the fields the file omits, and the image tag of the command line; so it satisfies
  the invariant of the specification exactly when the file's values (or the defaults) do.
\<close>

theorem load_config_stores_values:
  assumes "files w path = Some (Parsed (Mapping data))"
    and "\<forall>k \<in> set (map fst data). k \<in> set field_names"
    and "map_of data ''service_name'' = Some name"
    and "map_of data ''image_tag'' = Some old"
  shows "\<exists>loaded.
           load_config w path = Inr loaded
           \<and> loaded =
               \<lparr> service_name = name,
                 image_tag = old,
                 namespace = get_or data ''namespace'' (PStr ''default''),
                 replicas = get_or data ''replicas'' (PInt 3),
                 health_check_path = get_or data ''health_check_path'' (PStr ''/health''),
                 timeout_seconds = get_or data ''timeout_seconds'' (PInt 300),
                 rollback_on_failure = get_or data ''rollback_on_failure'' (PBool True) \<rparr>
           \<and> main [prog, path, tag] w =
               (if fst (deploy (loaded\<lparr>image_tag := PStr tag\<rparr>) w) = Inr True
                then (0, snd (deploy (loaded\<lparr>image_tag := PStr tag\<rparr>) w)
                           @ [Log INFO ''Deployment successful!''])
                else (1, snd (deploy (loaded\<lparr>image_tag := PStr tag\<rparr>) w)
                           @ [Log ERROR ''Deployment failed!'']))
           \<and> (config_invariant (loaded\<lparr>image_tag := PStr tag\<rparr>) \<longleftrightarrow>
                (case get_or data ''timeout_seconds'' (PInt 300) of
                   PInt n \<Rightarrow> 0 < n | _ \<Rightarrow> False)
                \<and> (case get_or data ''replicas'' (PInt 3) of PInt n \<Rightarrow> 1 \<le> n | _ \<Rightarrow> False)
                \<and> (case name of PStr s \<Rightarrow> dns_label_safe s | _ \<Rightarrow> False)
                \<and> (case get_or data ''namespace'' (PStr ''default'') of
                      PStr s \<Rightarrow> dns_label_safe s | _ \<Rightarrow> False))"
proof -
  let ?loaded =
    "\<lparr> service_name = name,
       image_tag = old,
       namespace = get_or data ''namespace'' (PStr ''default''),
       replicas = get_or data ''replicas'' (PInt 3),
       health_check_path = get_or data ''health_check_path'' (PStr ''/health''),
       timeout_seconds = get_or data ''timeout_seconds'' (PInt 300),
       rollback_on_failure = get_or data ''rollback_on_failure'' (PBool True) \<rparr>"
  have l: "load_config w path = Inr ?loaded"
    using assms find_fields [of "map fst data"]
    by (simp add: load_config_def DeployConfig_init_def required_names_def get_or_def)
  have m: "main [prog, path, tag] w =
             (if fst (deploy (?loaded\<lparr>image_tag := PStr tag\<rparr>) w) = Inr True
              then (0, snd (deploy (?loaded\<lparr>image_tag := PStr tag\<rparr>) w)
                         @ [Log INFO ''Deployment successful!''])
              else (1, snd (deploy (?loaded\<lparr>image_tag := PStr tag\<rparr>) w)
                         @ [Log ERROR ''Deployment failed!'']))"
    using l by (rule main_uses_cli_tag)
  have i: "config_invariant (?loaded\<lparr>image_tag := PStr tag\<rparr>) \<longleftrightarrow>
             (case get_or data ''timeout_seconds'' (PInt 300) of PInt n \<Rightarrow> 0 < n | _ \<Rightarrow> False)
             \<and> (case get_or data ''replicas'' (PInt 3) of PInt n \<Rightarrow> 1 \<le> n | _ \<Rightarrow> False)
             \<and> (case name of PStr s \<Rightarrow> dns_label_safe s | _ \<Rightarrow> False)
             \<and> (case get_or data ''namespace'' (PStr ''default'') of
                   PStr s \<Rightarrow> dns_label_safe s | _ \<Rightarrow> False)"
    by (simp add: config_invariant_def)
  from l m i show ?thesis
    by blast
qed

lemma unchecked_cmds:
  "update_cmd unchecked_config =
     [PStr ''kubectl'', PStr ''-n'', PStr [], PStr ''set'', PStr ''image'',
      PStr ''deployment/Bad_Name!'', PStr ''Bad_Name!=v2'']"
  "rollout_cmd unchecked_config =
     [PStr ''kubectl'', PStr ''-n'', PStr [], PStr ''rollout'', PStr ''status'',
      PStr ''deployment/Bad_Name!'', PStr ''--timeout=0s'']"
  "health_url unchecked_config = ''http://Bad_Name!..svc.cluster.local/health''"
  by (simp_all add: update_cmd_def rollout_cmd_def kubectl_cmd_def health_url_def
      unchecked_config_def str_int_def str_nat.simps)

lemma unchecked_deploy:
  "deploy unchecked_config unchecked_world =
     (Inr True,
      [Log INFO ''Starting deployment of Bad_Name!:v2'',
       Run [PStr ''kubectl'', PStr ''-n'', PStr [], PStr ''set'', PStr ''image'',
            PStr ''deployment/Bad_Name!'', PStr ''Bad_Name!=v2''],
       Log INFO ''Deployment updated successfully'',
       Run [PStr ''kubectl'', PStr ''-n'', PStr [], PStr ''rollout'', PStr ''status'',
            PStr ''deployment/Bad_Name!'', PStr ''--timeout=0s''],
       Get ''http://Bad_Name!..svc.cluster.local/health'' 10,
       Log INFO ''Health check passed'',
       Log INFO ''Deployment completed successfully''])"
proof -
  have u: "subprocess_result unchecked_world (update_cmd unchecked_config) = completed 0 []"
    and r: "subprocess_result unchecked_world (rollout_cmd unchecked_config) = completed 0 []"
    by (simp_all add: unchecked_world_def example_world_simps)
  have g: "get_result unchecked_world 0 (health_url unchecked_config) = Inr 200"
    by (simp add: unchecked_world_def example_world_def)
  have h: "verify_health unchecked_config unchecked_world =
             (Inr True, [Get (health_url unchecked_config) 10, Log INFO ''Health check passed''])"
    using g by (simp add: verify_health_def attempts5)
  have s: "py_str (service_name unchecked_config) = ''Bad_Name!''"
    "py_str (image_tag unchecked_config) = ''v2''"
    by (simp_all add: unchecked_config_def)
  show ?thesis
    using u r by (simp add: step_defs h s completed_def unchecked_cmds)
qed

text \<open>
  C7 as stated fails: a file with a zero timeout, zero replicas, a service name that is no
  DNS label and an empty namespace loads, and \<open>main\<close> runs the whole deployment with it.
\<close>

theorem load_config_unchecked:
  "load_config unchecked_world ''deploy.yaml'' = Inr (unchecked_config\<lparr>image_tag := PStr ''old''\<rparr>)
   \<and> timeout_seconds unchecked_config = PInt 0
   \<and> replicas unchecked_config = PInt 0
   \<and> service_name unchecked_config = PStr ''Bad_Name!''
   \<and> namespace unchecked_config = PStr []
   \<and> \<not> config_invariant unchecked_config
   \<and> main [''deploy.py'', ''deploy.yaml'', ''v2''] unchecked_world =
       (0,
        [Log INFO ''Starting deployment of Bad_Name!:v2'',
         Run [PStr ''kubectl'', PStr ''-n'', PStr [], PStr ''set'', PStr ''image'',
              PStr ''deployment/Bad_Name!'', PStr ''Bad_Name!=v2''],
         Log INFO ''Deployment updated successfully'',
         Run [PStr ''kubectl'', PStr ''-n'', PStr [], PStr ''rollout'', PStr ''status'',
              PStr ''deployment/Bad_Name!'', PStr ''--timeout=0s''],
         Get ''http://Bad_Name!..svc.cluster.local/health'' 10,
         Log INFO ''Health check passed'',
         Log INFO ''Deployment completed successfully'',
         Log INFO ''Deployment successful!''])"
proof -
  have l: "load_config unchecked_world ''deploy.yaml''
             = Inr (unchecked_config\<lparr>image_tag := PStr ''old''\<rparr>)"
    by (simp add: load_config_def unchecked_world_def DeployConfig_init_def field_names_def
        required_names_def get_or_def unchecked_config_def)
  have c: "unchecked_config\<lparr>image_tag := PStr ''old'', image_tag := PStr ''v2''\<rparr> = unchecked_config"
    by (simp add: unchecked_config_def)
  have m: "main [''deploy.py'', ''deploy.yaml'', ''v2''] unchecked_world =
             (0, snd (deploy unchecked_config unchecked_world)
                   @ [Log INFO ''Deployment successful!''])"
    using main_uses_cli_tag [OF l, of "''deploy.py''" "''v2''"]
    by (simp add: c unchecked_deploy)
  have i: "\<not> config_invariant unchecked_config"
    by (simp add: config_invariant_def unchecked_config_def)
  show ?thesis
    using l m i by (simp add: unchecked_deploy) (simp add: unchecked_config_def)
qed

text \<open>
  C8. A configuration file that gives \<open>service_name\<close>, \<open>namespace\<close> and \<open>timeout_seconds\<close>
  and no \<open>image_tag\<close> does not load: \<open>image_tag\<close> is a field without a default, so
  \<open>DeployConfig(**data)\<close> raises a \<open>TypeError\<close>, and \<open>main\<close> logs it and exits with status 1
  before any command is run, although the image tag is on the command line.
\<close>

theorem main_without_image_tag:
  "load_config tagless_world ''deploy.yaml'' =
     Inl (TypeError (''DeployConfig.__init__() missing 1 required positional argument: ''
            @ quoted ''image_tag''))
   \<and> main [''deploy.py'', ''deploy.yaml'', ''v2''] tagless_world =
       (1, [Log ERROR (''Script failed: DeployConfig.__init__() missing 1 required positional ''
                         @ ''argument: '' @ quoted ''image_tag'')])"
proof -
  have l: "load_config tagless_world ''deploy.yaml'' =
     Inl (TypeError (''DeployConfig.__init__() missing 1 required positional argument: ''
            @ quoted ''image_tag''))"
    by (simp add: load_config_def tagless_world_def DeployConfig_init_def field_names_def
        required_names_def missing_message_def)
  then show ?thesis
    by (simp add: main_def)
qed

theorem load_config_stores_values_witness:
  "files example_file_world ''deploy.yaml'' = Some (Parsed (Mapping example_mapping))
   \<and> map_of example_mapping ''service_name'' = Some (PStr ''api'')
   \<and> map_of example_mapping ''image_tag'' = Some (PStr ''old'')
   \<and> load_config example_file_world ''deploy.yaml''
       = Inr (example_config\<lparr>image_tag := PStr ''old''\<rparr>)
   \<and> config_invariant example_config
   \<and> main [''deploy.py'', ''deploy.yaml'', ''v2''] example_file_world =
       (if fst (deploy example_config example_file_world) = Inr True
        then (0, snd (deploy example_config example_file_world)
                   @ [Log INFO ''Deployment successful!''])
        else (1, snd (deploy example_config example_file_world)
                   @ [Log ERROR ''Deployment failed!'']))"
proof -
  have f: "files example_file_world ''deploy.yaml'' = Some (Parsed (Mapping example_mapping))"
    by (simp add: example_file_world_def)
  have k: "\<forall>k \<in> set (map fst example_mapping). k \<in> set field_names"
    by (simp add: example_mapping_def field_names_def)
  have n: "map_of example_mapping ''service_name'' = Some (PStr ''api'')"
    and t: "map_of example_mapping ''image_tag'' = Some (PStr ''old'')"
    by (simp_all add: example_mapping_def)
  have v: "\<lparr> service_name = PStr ''api'',
             image_tag = PStr ''old'',
             namespace = get_or example_mapping ''namespace'' (PStr ''default''),
             replicas = get_or example_mapping ''replicas'' (PInt 3),
             health_check_path = get_or example_mapping ''health_check_path'' (PStr ''/health''),
             timeout_seconds = get_or example_mapping ''timeout_seconds'' (PInt 300),
             rollback_on_failure = get_or example_mapping ''rollback_on_failure'' (PBool True) \<rparr>
           = example_config\<lparr>image_tag := PStr ''old''\<rparr>"
    by (simp add: example_mapping_def get_or_def example_config_def)
  have c: "example_config\<lparr>image_tag := PStr ''old'', image_tag := PStr ''v2''\<rparr> = example_config"
    by (simp add: example_config_def)
  have i: "config_invariant example_config"
    by (simp add: config_invariant_def example_config_def dns_label_safe_def)
  from load_config_stores_values [OF f k n t, of "''deploy.py''" "''v2''"]
  have "load_config example_file_world ''deploy.yaml''
          = Inr (example_config\<lparr>image_tag := PStr ''old''\<rparr>)
        \<and> main [''deploy.py'', ''deploy.yaml'', ''v2''] example_file_world =
            (if fst (deploy example_config example_file_world) = Inr True
             then (0, snd (deploy example_config example_file_world)
                        @ [Log INFO ''Deployment successful!''])
             else (1, snd (deploy example_config example_file_world)
                        @ [Log ERROR ''Deployment failed!'']))"
    unfolding v by (auto simp: c)
  with f n t i show ?thesis
    by simp
qed

end
